theory Spec2Isabelle
  imports Main
begin

section \<open>JavaScript values\<close>

text \<open>
  Identifiers are JavaScript strings that may be \<open>undefined\<close>: \<open>None\<close> is
  \<open>undefined\<close>. A string is truthy when it is defined and not empty, and
  \<open>a || b\<close> yields \<open>a\<close> when \<open>a\<close> is truthy and \<open>b\<close> otherwise. A destructuring
  default \<open>{ x = d }\<close> is used only when the property is \<open>undefined\<close>.
\<close>

definition truthy :: "string option \<Rightarrow> bool" where
  "truthy v = (v \<noteq> None \<and> v \<noteq> Some [])"

definition js_or :: "string option \<Rightarrow> string option \<Rightarrow> string option" where
  "js_or a b = (if truthy a then a else b)"

definition js_default :: "'a option \<Rightarrow> 'a option \<Rightarrow> 'a option" where
  "js_default a d = (case a of None \<Rightarrow> d | Some x \<Rightarrow> Some x)"

text \<open>
  A boolean field that may be \<open>undefined\<close>: \<open>!x\<close> is true exactly when \<open>x\<close> is not
  \<open>true\<close>, and \<open>x || b\<close> is \<open>true\<close> when \<open>x\<close> is \<open>true\<close> and \<open>b\<close> otherwise.
\<close>

definition js_not :: "bool option \<Rightarrow> bool" where
  "js_not x = (x \<noteq> Some True)"

definition bool_or :: "bool option \<Rightarrow> bool \<Rightarrow> bool" where
  "bool_or x b = (if x = Some True then True else b)"

datatype error = TypeError | EncodeError string | RemoteError string

section \<open>The product aggregate\<close>

text \<open>
  An option carries \<open>_id\<close> and \<open>isVisible\<close>; a variant carries these and its
  \<open>options\<close>; a product carries these, its \<open>variants\<close>, the ids of \<open>tags.nodes\<close>
  (\<open>None\<close> when \<open>tags\<close> is missing), \<open>socialMetadata\<close> (\<open>None\<close> when it is not an
  array) and every other property, held by name in \<open>props\<close>.
\<close>

record entity =
  ident :: string
  isVisible :: "bool option"

record variant = entity +
  options :: "entity list"

record social =
  service :: string
  message :: string

record product = entity +
  variants :: "variant list"
  tags :: "string list option"
  socialMetadata :: "social list option"
  props :: "string \<rightharpoonup> string"

section \<open>Identifier resolution\<close>

record route_params =
  rp_handle :: "string option"
  rp_variantId :: "string option"
  rp_optionId :: "string option"
  rp_shopId :: "string option"

record hook_args =
  productIdProp :: "string option"
  variantIdProp :: "string option"
  optionIdProp :: "string option"

record selection =
  r_productId :: "string option"
  r_variantId :: "string option"
  r_optionId :: "string option"
  r_shopId :: "string option"

text \<open>The four resolutions at the head of \<open>useProduct\<close>.\<close>

definition useProduct_ids :: "route_params \<Rightarrow> hook_args \<Rightarrow> string option \<Rightarrow> selection" where
  "useProduct_ids routeParams args currentShopId =
     \<lparr> r_productId = js_or (rp_handle routeParams) (productIdProp args),
       r_variantId = js_or (rp_variantId routeParams) (variantIdProp args),
       r_optionId = js_or (rp_optionId routeParams) (optionIdProp args),
       r_shopId = js_or (rp_shopId routeParams) currentShopId \<rparr>"

text \<open>
  The same four lines at the head of \<open>useVariantInventory\<close>, followed by
  \<open>productVariantId = optionId || variantId\<close>.
\<close>

record inventory_selection = selection +
  r_productVariantId :: "string option"

definition useVariantInventory_ids ::
  "route_params \<Rightarrow> hook_args \<Rightarrow> string option \<Rightarrow> inventory_selection" where
  "useVariantInventory_ids routeParams args currentShopId =
     (let pid = js_or (rp_handle routeParams) (productIdProp args);
          vid = js_or (rp_variantId routeParams) (variantIdProp args);
          oid = js_or (rp_optionId routeParams) (optionIdProp args);
          sid = js_or (rp_shopId routeParams) currentShopId
      in \<lparr> r_productId = pid, r_variantId = vid, r_optionId = oid, r_shopId = sid,
           r_productVariantId = js_or oid vid \<rparr>)"

section \<open>Locating the variant and the option\<close>

text \<open>
  \<open>xs.find(({ _id }) => _id === i)\<close>: the first element whose \<open>_id\<close> is \<open>i\<close>, or
  \<open>undefined\<close>.
\<close>

definition find_by_id :: "string option \<Rightarrow> ('a entity_scheme) list \<Rightarrow> ('a entity_scheme) option" where
  "find_by_id i xs = List.find (\<lambda>x. Some (ident x) = i) xs"

text \<open>
  The two guarded lookups, as both hooks write them. The second guard tests \<open>variantId\<close>,
  not \<open>variant\<close>; reading \<open>variant.options\<close> when \<open>variant\<close> is \<open>undefined\<close> throws a
  \<open>TypeError\<close> during the render pass.
\<close>

definition locate ::
  "product option \<Rightarrow> string option \<Rightarrow> string option \<Rightarrow> error + (variant option \<times> entity option)" where
  "locate product variantId optionId =
     (let variant =
            (case product of
               None \<Rightarrow> None
             | Some p \<Rightarrow> if truthy variantId then find_by_id variantId (variants p) else None)
      in if product \<noteq> None \<and> truthy variantId \<and> truthy optionId then
           (case variant of
              None \<Rightarrow> Inl TypeError
            | Some v \<Rightarrow> Inr (variant, find_by_id optionId (options v)))
         else Inr (variant, None))"

section \<open>The inventory form's initial state\<close>

record inventory_info =
  inventoryInStock :: "int option"
  inventoryReserved :: "int option"
  lowInventoryWarningThreshold :: "int option"
  canBackorder :: "bool option"
  isEnabled :: "bool option"

record form_state =
  fs_isSubmitting :: bool
  fs_isEnabled :: "bool option"
  fs_canBackorder :: "bool option"

text \<open>
  The effect of \<open>VariantInventoryForm\<close> that runs when \<open>inventoryInfo\<close> changes:
  \<open>setIsEnabled(inventoryInfo.isEnabled || false)\<close> and
  \<open>setCanBackorder(inventoryInfo.canBackorder || true)\<close>, both only for a loaded value.
\<close>

definition inventoryInfoEffect :: "inventory_info option \<Rightarrow> form_state \<Rightarrow> form_state" where
  "inventoryInfoEffect inventoryInfo fs =
     (case inventoryInfo of
        None \<Rightarrow> fs
      | Some info \<Rightarrow>
          fs\<lparr> fs_isEnabled := Some (bool_or (isEnabled info) False),
              fs_canBackorder := Some (bool_or (canBackorder info) True) \<rparr>)"

section \<open>Collaborators and observable effects\<close>

text \<open>
  A notification is either \<open>Alerts.toast(i18next.t(key, { err }), severity)\<close> or
  \<open>enqueueSnackbar(i18next.t(key), { variant: severity })\<close>.
\<close>

datatype severity = SevSuccess | SevError

datatype notification =
    Toast string "error option" severity
  | Snackbar string severity

fun severity_of :: "notification \<Rightarrow> severity" where
  "severity_of (Toast key err sev) = sev"
| "severity_of (Snackbar key sev) = sev"

text \<open>
  The \<open>product\<close> or \<open>variant\<close> member of an update input: a visibility flip, a tag id
  list, or the field set the caller handed over (\<open>None\<close> when the caller gave none).
\<close>

datatype patch =
    IsVisible bool
  | TagIds "string list"
  | Fields "(string \<times> string) list option"

text \<open>The \<open>input\<close> object of each GraphQL mutation, with the members the handlers set.\<close>

datatype request =
    ArchiveProducts (req_shopId: "string option") (req_productIds: "string list")
  | CloneProducts (req_shopId: "string option") (req_productIds: "string list")
  | CreateProductVariant (req_productId: "string option") (req_shopId: "string option")
  | UpdateProduct (req_productId: "string option") (req_shopId: "string option")
      (req_patch: patch)
  | UpdateProductVariant (req_variantId: "string option") (req_shopId: "string option")
      (req_patch: patch)
  | UpdateSimpleInventory (req_inventoryInput: "inventory_info option")
      (req_productId: "string option") (req_productVariantId: "string option")
      (req_shopId: "string option")
  | RecalculateReservedSimpleInventory
      (req_productId: "string option") (req_productVariantId: "string option")
      (req_shopId: "string option")

text \<open>
  The collaborators the handlers await: the opaque-identifier encoder, from
  \<open>(namespace, id)\<close> pairs, and the mutation transport. Either may reject; \<open>mutate\<close>
  yields \<open>None\<close> when the call resolves.
\<close>

record remote =
  getOpaqueIds :: "(string \<times> string) list \<Rightarrow> error + string list"
  mutate :: "request \<Rightarrow> error option"

datatype query = InventoryQuery | ProductQuery

text \<open>
  What the layer can change: the product held by the query cache, the mutations
  submitted, the notifications shown, the paths pushed to the history, and the fetches
  re-issued, each oldest first.
\<close>

record world =
  cache :: "product option"
  requests :: "request list"
  notifications :: "notification list"
  navigations :: "string list"
  fetches :: "query list"

definition submit :: "request \<Rightarrow> world \<Rightarrow> world" where
  "submit req w = w\<lparr> requests := requests w @ [req] \<rparr>"

definition notify :: "notification \<Rightarrow> world \<Rightarrow> world" where
  "notify n w = w\<lparr> notifications := notifications w @ [n] \<rparr>"

definition push :: "string \<Rightarrow> world \<Rightarrow> world" where
  "push url w = w\<lparr> navigations := navigations w @ [url] \<rparr>"

text \<open>How the promise returned by an \<open>async\<close> handler settles.\<close>

datatype settled = Resolved | Rejected error

text \<open>
  \<open>try { await mutation({ variables: { input } }); S } catch (error) { F(error) }\<close>:
  the request is submitted; \<open>S\<close> runs when it resolves, \<open>F\<close> when it rejects.
\<close>

definition try_await ::
  "remote \<Rightarrow> request \<Rightarrow> (world \<Rightarrow> world) \<Rightarrow> (error \<Rightarrow> world \<Rightarrow> world) \<Rightarrow> world \<Rightarrow> world" where
  "try_await env req on_resolved on_rejected w =
     (case mutate env req of
        None \<Rightarrow> on_resolved (submit req w)
      | Some err \<Rightarrow> on_rejected err (submit req w))"

text \<open>
  The destructuring default \<open>= product._id\<close>: evaluated only when the property is
  \<open>undefined\<close>, and a \<open>TypeError\<close> when the hook's \<open>product\<close> is \<open>undefined\<close> then.
\<close>

definition default_product_id :: "string option \<Rightarrow> product option \<Rightarrow> error + string option" where
  "default_product_id given product =
     (case given of
        Some i \<Rightarrow> Inr (Some i)
      | None \<Rightarrow> (case product of None \<Rightarrow> Inl TypeError | Some p \<Rightarrow> Inr (Some (ident p))))"

text \<open>
  The destructuring default \<open>= shopId._id\<close> of \<open>onToggleVariantVisibility\<close>: \<open>shopId\<close> is
  a string, whose \<open>_id\<close> property is \<open>undefined\<close>; when \<open>shopId\<close> itself is \<open>undefined\<close>
  the property read throws.
\<close>

definition default_shopId_id :: "string option \<Rightarrow> string option \<Rightarrow> error + string option" where
  "default_shopId_id given shopId =
     (case given of
        Some s \<Rightarrow> Inr (Some s)
      | None \<Rightarrow> (case shopId of None \<Rightarrow> Inl TypeError | Some s \<Rightarrow> Inr None))"

section \<open>The handlers of useProduct\<close>

text \<open>
  Each handler is a closure over the hook's \<open>shopId\<close> and \<open>product\<close>. A handler that
  destructures its parameter takes \<open>None\<close> when it is called without an argument, which
  throws before the body runs. An exception outside \<open>try\<close> rejects the handler's promise.
\<close>

definition onArchiveProduct ::
  "remote \<Rightarrow> string option \<Rightarrow> 'a entity_scheme \<Rightarrow> string \<Rightarrow> world \<Rightarrow> world \<times> settled" where
  "onArchiveProduct env shopId product redirectUrl w =
     (case getOpaqueIds env [(''Product'', ident product)] of
        Inl err \<Rightarrow> (w, Rejected err)
      | Inr opaqueProductIds \<Rightarrow>
          (try_await env (ArchiveProducts shopId opaqueProductIds)
             (\<lambda>w1. push redirectUrl
                (notify (Toast ''productDetailEdit.archiveProductsSuccess'' None SevSuccess) w1))
             (\<lambda>err. notify (Toast ''productDetailEdit.archiveProductsFail'' (Some err) SevError))
             w,
           Resolved))"

definition onCloneProduct ::
  "remote \<Rightarrow> string option \<Rightarrow> string \<Rightarrow> world \<Rightarrow> world \<times> settled" where
  "onCloneProduct env shopId product w =
     (case getOpaqueIds env [(''Product'', product)] of
        Inl err \<Rightarrow> (w, Rejected err)
      | Inr opaqueProductIds \<Rightarrow>
          (try_await env (CloneProducts shopId opaqueProductIds)
             (notify (Toast ''productDetailEdit.cloneProductSuccess'' None SevSuccess))
             (\<lambda>err. notify (Toast ''productDetailEdit.cloneProductFail'' (Some err) SevError))
             w,
           Resolved))"

record create_variant_args =
  cv_parentId :: "string option"
  cv_shopId :: "string option"

definition onCreateVariant ::
  "remote \<Rightarrow> string option \<Rightarrow> product option \<Rightarrow> create_variant_args option \<Rightarrow> world
     \<Rightarrow> world \<times> settled" where
  "onCreateVariant env shopId product arg w =
     (case arg of
        None \<Rightarrow> (w, Rejected TypeError)
      | Some a \<Rightarrow>
          (case default_product_id (cv_parentId a) product of
             Inl err \<Rightarrow> (w, Rejected err)
           | Inr parentIdLocal \<Rightarrow>
               (try_await env (CreateProductVariant parentIdLocal (js_default (cv_shopId a) shopId))
                  (notify (Toast ''productDetailEdit.addVariant'' None SevSuccess))
                  (\<lambda>err. notify (Toast ''productDetailEdit.addVariantFail'' (Some err) SevError))
                  w,
                Resolved)))"

definition onToggleProductVisibility ::
  "remote \<Rightarrow> string option \<Rightarrow> product option \<Rightarrow> world \<Rightarrow> world \<times> settled" where
  "onToggleProductVisibility env shopId product w =
     (case product of
        None \<Rightarrow>
          (notify (Toast ''productDetailEdit.updateProductFieldFail'' (Some TypeError) SevError) w,
           Resolved)
      | Some p \<Rightarrow>
          (try_await env (UpdateProduct (Some (ident p)) shopId (IsVisible (js_not (isVisible p))))
             (notify (Toast ''productDetailEdit.updateProductFieldSuccess'' None SevSuccess))
             (\<lambda>err. notify (Toast ''productDetailEdit.updateProductFieldFail'' (Some err) SevError))
             w,
           Resolved))"

record update_product_args =
  up_product :: "(string \<times> string) list option"
  up_productId :: "string option"
  up_shopId :: "string option"

definition onUpdateProduct ::
  "remote \<Rightarrow> string option \<Rightarrow> product option \<Rightarrow> update_product_args option \<Rightarrow> world
     \<Rightarrow> world \<times> settled" where
  "onUpdateProduct env shopId product arg w =
     (case arg of
        None \<Rightarrow> (w, Rejected TypeError)
      | Some a \<Rightarrow>
          (case default_product_id (up_productId a) product of
             Inl err \<Rightarrow> (w, Rejected err)
           | Inr productIdLocal \<Rightarrow>
               (try_await env
                  (UpdateProduct productIdLocal (js_default (up_shopId a) shopId)
                     (Fields (up_product a)))
                  (notify (Snackbar ''productDetailEdit.updateProductFieldSuccess'' SevSuccess))
                  (\<lambda>err. notify (Snackbar ''productDetailEdit.updateProductFieldFail'' SevError))
                  w,
                Resolved)))"

text \<open>
  \<open>dt_tag\<close> is the \<open>_id\<close> of the tag to delete (\<open>None\<close> when no tag is given, which
  throws in the filter callback as soon as there is a tag to compare with).
\<close>

record delete_tag_args =
  dt_tag :: "string option"
  dt_product :: "product option"
  dt_productId :: "string option"
  dt_shopId :: "string option"

definition filteredTagIds :: "product option \<Rightarrow> string option \<Rightarrow> error + string list" where
  "filteredTagIds productLocal tagLocal =
     (case productLocal of
        None \<Rightarrow> Inl TypeError
      | Some p \<Rightarrow>
          (case tags p of
             None \<Rightarrow> Inl TypeError
           | Some nodes \<Rightarrow>
               (case tagLocal of
                  None \<Rightarrow> if nodes = [] then Inr [] else Inl TypeError
                | Some t \<Rightarrow> Inr (filter (\<lambda>i. i \<noteq> t) nodes))))"

definition handleDeleteProductTag ::
  "remote \<Rightarrow> string option \<Rightarrow> product option \<Rightarrow> delete_tag_args option \<Rightarrow> world
     \<Rightarrow> world \<times> settled" where
  "handleDeleteProductTag env shopId product arg w =
     (case arg of
        None \<Rightarrow> (w, Rejected TypeError)
      | Some a \<Rightarrow>
          (case default_product_id (dt_productId a) product of
             Inl err \<Rightarrow> (w, Rejected err)
           | Inr productIdLocal \<Rightarrow>
               (case filteredTagIds (js_default (dt_product a) product) (dt_tag a) of
                  Inl err \<Rightarrow> (w, Rejected err)
                | Inr ids \<Rightarrow>
                    (try_await env
                       (UpdateProduct productIdLocal (js_default (dt_shopId a) shopId) (TagIds ids))
                       (notify (Snackbar ''productDetailEdit.removeProductTagSuccess'' SevSuccess))
                       (\<lambda>err. notify (Snackbar ''productDetailEdit.removeProductTagFail'' SevError))
                       w,
                     Resolved))))"

record update_variant_args =
  uv_variant :: "(string \<times> string) list option"
  uv_variantId :: "string option"
  uv_shopId :: "string option"

definition onUpdateProductVariant ::
  "remote \<Rightarrow> string option \<Rightarrow> update_variant_args option \<Rightarrow> world \<Rightarrow> world \<times> settled" where
  "onUpdateProductVariant env shopId arg w =
     (case arg of
        None \<Rightarrow> (w, Rejected TypeError)
      | Some a \<Rightarrow>
          (try_await env
             (UpdateProductVariant (uv_variantId a) (js_default (uv_shopId a) shopId)
                (Fields (uv_variant a)))
             (notify (Toast ''productDetailEdit.updateProductFieldSuccess'' None SevSuccess))
             (\<lambda>err. notify (Toast ''productDetailEdit.updateProductFieldFail'' (Some err) SevError))
             w,
           Resolved))"

text \<open>\<open>tv_variant\<close> is the variant or option to flip; only \<open>_id\<close> and \<open>isVisible\<close> are read.\<close>

record toggle_variant_args =
  tv_variant :: "entity option"
  tv_shopId :: "string option"

definition onToggleVariantVisibility ::
  "remote \<Rightarrow> string option \<Rightarrow> toggle_variant_args option \<Rightarrow> world \<Rightarrow> world \<times> settled" where
  "onToggleVariantVisibility env shopId arg w =
     (case arg of
        None \<Rightarrow> (w, Rejected TypeError)
      | Some a \<Rightarrow>
          (case default_shopId_id (tv_shopId a) shopId of
             Inl err \<Rightarrow> (w, Rejected err)
           | Inr shopIdLocal \<Rightarrow>
               (case tv_variant a of
                  None \<Rightarrow>
                    (notify (Toast ''productDetailEdit.updateProductFieldFail'' (Some TypeError)
                       SevError) w,
                     Resolved)
                | Some variantLocal \<Rightarrow>
                    (try_await env
                       (UpdateProductVariant (Some (ident variantLocal)) shopIdLocal
                          (IsVisible (js_not (isVisible variantLocal))))
                       (notify (Toast ''productDetailEdit.updateProductFieldSuccess'' None SevSuccess))
                       (\<lambda>err. notify
                          (Toast ''productDetailEdit.updateProductFieldFail'' (Some err) SevError))
                       w,
                     Resolved))))"

section \<open>The handlers of useVariantInventory\<close>

text \<open>
  Closures over the hook's \<open>productId\<close>, \<open>productVariantId\<close> and \<open>shopId\<close>. Both
  parameter patterns read the property \<open>productVariantId\<close> twice: once for
  \<open>productVariantIdLocal\<close> and once more for \<open>shopIdLocal\<close>; no pattern reads a
  \<open>shopId\<close> property, so \<open>ui_shopId\<close> and \<open>rr_shopId\<close> are never looked at.
\<close>

record update_inventory_args =
  ui_inventoryInput :: "inventory_info option"
  ui_productId :: "string option"
  ui_productVariantId :: "string option"
  ui_shopId :: "string option"

definition onUpdateVariantInventoryInfo ::
  "remote \<Rightarrow> 'a inventory_selection_scheme \<Rightarrow> update_inventory_args option \<Rightarrow> world
     \<Rightarrow> world \<times> settled" where
  "onUpdateVariantInventoryInfo env sel arg w =
     (case arg of
        None \<Rightarrow> (w, Rejected TypeError)
      | Some a \<Rightarrow>
          (let productIdLocal = js_default (ui_productId a) (r_productId sel);
               productVariantIdLocal = js_default (ui_productVariantId a) (r_productVariantId sel);
               shopIdLocal = js_default (ui_productVariantId a) (r_shopId sel)
           in (try_await env
                 (UpdateSimpleInventory (ui_inventoryInput a) productIdLocal productVariantIdLocal
                    shopIdLocal)
                 (notify (Snackbar ''productDetailEdit.updateProductFieldSuccess'' SevSuccess))
                 (\<lambda>err. notify (Snackbar ''productDetailEdit.removeProductTagFail'' SevError))
                 w,
               Resolved)))"

record recalculate_args =
  rr_productId :: "string option"
  rr_productVariantId :: "string option"
  rr_shopId :: "string option"

definition onRecalculateReservedSimpleInventory ::
  "remote \<Rightarrow> 'a inventory_selection_scheme \<Rightarrow> recalculate_args option \<Rightarrow> world
     \<Rightarrow> world \<times> settled" where
  "onRecalculateReservedSimpleInventory env sel arg w =
     (case arg of
        None \<Rightarrow> (w, Rejected TypeError)
      | Some a \<Rightarrow>
          (let productIdLocal = js_default (rr_productId a) (r_productId sel);
               productVariantIdLocal = js_default (rr_productVariantId a) (r_productVariantId sel);
               shopIdLocal = js_default (rr_productVariantId a) (r_shopId sel)
           in (try_await env
                 (RecalculateReservedSimpleInventory productIdLocal productVariantIdLocal
                    shopIdLocal)
                 (notify (Snackbar ''productDetailEdit.updateProductFieldSuccess'' SevSuccess))
                 (\<lambda>err. notify (Snackbar ''productDetailEdit.removeProductTagFail'' SevError))
                 w,
               Resolved)))"

text \<open>
  The variables of the hook's inventory query:
  \<open>{ productConfiguration: { productId, productVariantId }, shopId }\<close>.
\<close>

record inventory_query_variables =
  qv_productId :: "string option"
  qv_productVariantId :: "string option"
  qv_shopId :: "string option"

definition inventoryQueryVariables :: "'a inventory_selection_scheme \<Rightarrow> inventory_query_variables" where
  "inventoryQueryVariables sel =
     \<lparr> qv_productId = r_productId sel,
       qv_productVariantId = r_productVariantId sel,
       qv_shopId = r_shopId sel \<rparr>"

section \<open>Refetching\<close>

text \<open>
  What a call returns to its caller: \<open>undefined\<close>, or a promise that settles when the
  re-issued fetch of the given query has landed. \<open>awaited v\<close> is the set of fetches a
  caller that awaits \<open>v\<close> waits for.
\<close>

datatype js_value = Undefined | Promise query

fun awaited :: "js_value \<Rightarrow> query set" where
  "awaited Undefined = {}"
| "awaited (Promise q) = {q}"

text \<open>
  The query client's own \<open>refetch\<close> for a query, a collaborator outside this
  repository: it re-issues the fetch and returns its promise.
\<close>

definition client_refetch :: "query \<Rightarrow> world \<Rightarrow> world \<times> js_value" where
  "client_refetch q w = (w\<lparr> fetches := fetches w @ [q] \<rparr>, Promise q)"

text \<open>
  The \<open>refetch\<close> member returned by \<open>useVariantInventory\<close>:
  \<open>() => { refetchInventory(); refetchProduct(); }\<close>. Both results are dropped and the
  block has no \<open>return\<close>.
\<close>

definition refetch ::
  "(world \<Rightarrow> world \<times> js_value) \<Rightarrow> (world \<Rightarrow> world \<times> js_value) \<Rightarrow> world \<Rightarrow> world \<times> js_value" where
  "refetch refetchInventory refetchProduct w =
     (let w1 = fst (refetchInventory w);
          w2 = fst (refetchProduct w1)
      in (w2, Undefined))"

section \<open>The render pass of useProduct\<close>

text \<open>
  \<open>product[`${service}Msg`] = message\<close> for every element of \<open>socialMetadata\<close>, in
  order, when \<open>socialMetadata\<close> is an array. The write goes to the product object the
  query returned.
\<close>

definition socialMetadataToProps :: "product \<Rightarrow> product" where
  "socialMetadataToProps p =
     (case socialMetadata p of
        None \<Rightarrow> p
      | Some entries \<Rightarrow>
          foldl (\<lambda>q s. q\<lparr> props := (props q)(service s @ ''Msg'' \<mapsto> message s) \<rparr>) p entries)"

record hook_result =
  h_selection :: selection
  h_variant :: "variant option"
  h_option :: "entity option"

text \<open>
  One call of the hook: resolve the identifiers, take \<open>product\<close> from the query result,
  locate the variant and the option, then convert the social metadata. A throw in the
  locator ends the render before the conversion.
\<close>

definition useProduct ::
  "route_params \<Rightarrow> hook_args \<Rightarrow> string option \<Rightarrow> world \<Rightarrow> error + (world \<times> hook_result)" where
  "useProduct routeParams args currentShopId w =
     (let sel = useProduct_ids routeParams args currentShopId;
          product = cache w
      in case locate product (r_variantId sel) (r_optionId sel) of
           Inl err \<Rightarrow> Inl err
         | Inr (variant, option) \<Rightarrow>
             Inr (w\<lparr> cache := map_option socialMetadataToProps product \<rparr>,
                  \<lparr> h_selection = sel, h_variant = variant, h_option = option \<rparr>))"

section \<open>Invoking an operation\<close>

text \<open>
  The mutation operations of the two hooks, each with the argument it is called with,
  and their dispatch. \<open>sel\<close> is the selection the hooks resolved and \<open>product\<close> the
  product \<open>useProduct\<close> loaded.
\<close>

datatype operation =
    OnArchiveProduct product string
  | OnCloneProduct string
  | OnCreateVariant "create_variant_args option"
  | OnToggleProductVisibility
  | OnUpdateProduct "update_product_args option"
  | HandleDeleteProductTag "delete_tag_args option"
  | OnUpdateProductVariant "update_variant_args option"
  | OnToggleVariantVisibility "toggle_variant_args option"
  | OnUpdateVariantInventoryInfo "update_inventory_args option"
  | OnRecalculateReservedSimpleInventory "recalculate_args option"

fun invoke ::
  "remote \<Rightarrow> inventory_selection \<Rightarrow> product option \<Rightarrow> operation \<Rightarrow> world \<Rightarrow> world \<times> settled" where
  "invoke env sel product (OnArchiveProduct p redirectUrl) w =
     onArchiveProduct env (r_shopId sel) p redirectUrl w"
| "invoke env sel product (OnCloneProduct i) w = onCloneProduct env (r_shopId sel) i w"
| "invoke env sel product (OnCreateVariant arg) w =
     onCreateVariant env (r_shopId sel) product arg w"
| "invoke env sel product OnToggleProductVisibility w =
     onToggleProductVisibility env (r_shopId sel) product w"
| "invoke env sel product (OnUpdateProduct arg) w =
     onUpdateProduct env (r_shopId sel) product arg w"
| "invoke env sel product (HandleDeleteProductTag arg) w =
     handleDeleteProductTag env (r_shopId sel) product arg w"
| "invoke env sel product (OnUpdateProductVariant arg) w =
     onUpdateProductVariant env (r_shopId sel) arg w"
| "invoke env sel product (OnToggleVariantVisibility arg) w =
     onToggleVariantVisibility env (r_shopId sel) arg w"
| "invoke env sel product (OnUpdateVariantInventoryInfo arg) w =
     onUpdateVariantInventoryInfo env sel arg w"
| "invoke env sel product (OnRecalculateReservedSimpleInventory arg) w =
     onRecalculateReservedSimpleInventory env sel arg w"

section \<open>Concrete inputs\<close>

text \<open>
  A product with two variants, the first with one option, two tags and one social
  metadata entry; an empty world holding it; collaborators that succeed, a transport
  that rejects, and an encoder that rejects.
\<close>

definition example_variants :: "variant list" where
  "example_variants =
     [\<lparr> ident = ''v1'', isVisible = Some True,
         options = [\<lparr> ident = ''o1'', isVisible = Some False \<rparr>] \<rparr>,
      \<lparr> ident = ''v2'', isVisible = Some False, options = [] \<rparr>]"

definition example_product :: product where
  "example_product =
     \<lparr> ident = ''p1'', isVisible = Some True,
       variants = example_variants,
       tags = Some [''t1'', ''t2''],
       socialMetadata = Some [\<lparr> service = ''twitter'', message = ''hello'' \<rparr>],
       props = Map.empty \<rparr>"

definition example_world :: world where
  "example_world =
     \<lparr> cache = Some example_product, requests = [], notifications = [], navigations = [],
       fetches = [] \<rparr>"

definition example_route :: route_params where
  "example_route =
     \<lparr> rp_handle = Some ''p1'', rp_variantId = Some ''v1'', rp_optionId = None,
       rp_shopId = None \<rparr>"

definition example_args :: hook_args where
  "example_args =
     \<lparr> productIdProp = Some ''p9'', variantIdProp = Some ''v9'', optionIdProp = Some ''o1'' \<rparr>"

definition example_selection :: inventory_selection where
  "example_selection = useVariantInventory_ids example_route example_args (Some ''shop1'')"

definition remote_ok :: remote where
  "remote_ok =
     \<lparr> getOpaqueIds = (\<lambda>xs. Inr (map (\<lambda>(ns, i). ns @ '':'' @ i) xs)),
       mutate = (\<lambda>req. None) \<rparr>"

definition remote_rejects :: remote where
  "remote_rejects = remote_ok\<lparr> mutate := (\<lambda>req. Some (RemoteError ''rejected'')) \<rparr>"

definition encoder_rejects :: remote where
  "encoder_rejects = remote_ok\<lparr> getOpaqueIds := (\<lambda>xs. Inl (EncodeError ''no such id'')) \<rparr>"

section \<open>Identifier resolution\<close>

lemma js_or_present: "truthy a \<Longrightarrow> js_or a b = a"
  by (simp add: js_or_def)

lemma js_or_absent: "\<not> truthy a \<Longrightarrow> js_or a b = b"
  by (simp add: js_or_def)

text \<open>
  C7. A route parameter is present when it is a non-empty string. In both hooks, each of
  the product, variant, option and shop identifiers resolves to the route parameter
  when that is present, and to the explicit argument (for the shop: the current shop
  id) when it is absent.
\<close>

theorem route_parameters_take_precedence:
  "(truthy (rp_handle rp) \<longrightarrow>
      r_productId (useProduct_ids rp a cur) = rp_handle rp \<and>
      r_productId (useVariantInventory_ids rp a cur) = rp_handle rp) \<and>
   (\<not> truthy (rp_handle rp) \<longrightarrow>
      r_productId (useProduct_ids rp a cur) = productIdProp a \<and>
      r_productId (useVariantInventory_ids rp a cur) = productIdProp a) \<and>
   (truthy (rp_variantId rp) \<longrightarrow>
      r_variantId (useProduct_ids rp a cur) = rp_variantId rp \<and>
      r_variantId (useVariantInventory_ids rp a cur) = rp_variantId rp) \<and>
   (\<not> truthy (rp_variantId rp) \<longrightarrow>
      r_variantId (useProduct_ids rp a cur) = variantIdProp a \<and>
      r_variantId (useVariantInventory_ids rp a cur) = variantIdProp a) \<and>
   (truthy (rp_optionId rp) \<longrightarrow>
      r_optionId (useProduct_ids rp a cur) = rp_optionId rp \<and>
      r_optionId (useVariantInventory_ids rp a cur) = rp_optionId rp) \<and>
   (\<not> truthy (rp_optionId rp) \<longrightarrow>
      r_optionId (useProduct_ids rp a cur) = optionIdProp a \<and>
      r_optionId (useVariantInventory_ids rp a cur) = optionIdProp a) \<and>
   (truthy (rp_shopId rp) \<longrightarrow>
      r_shopId (useProduct_ids rp a cur) = rp_shopId rp \<and>
      r_shopId (useVariantInventory_ids rp a cur) = rp_shopId rp) \<and>
   (\<not> truthy (rp_shopId rp) \<longrightarrow>
      r_shopId (useProduct_ids rp a cur) = cur \<and>
      r_shopId (useVariantInventory_ids rp a cur) = cur)"
  by (simp add: useProduct_ids_def useVariantInventory_ids_def Let_def js_or_present js_or_absent)

theorem route_parameters_take_precedence_witness:
  "truthy (rp_handle example_route) \<and> \<not> truthy (rp_optionId example_route) \<and>
   \<not> truthy (rp_shopId example_route) \<and>
   r_productId (useProduct_ids example_route example_args (Some ''shop1'')) = Some ''p1'' \<and>
   r_variantId (useVariantInventory_ids example_route example_args (Some ''shop1'')) = Some ''v1'' \<and>
   r_optionId (useProduct_ids example_route example_args (Some ''shop1'')) = Some ''o1'' \<and>
   r_shopId (useVariantInventory_ids example_route example_args (Some ''shop1'')) = Some ''shop1''"
  using route_parameters_take_precedence [of example_route example_args "Some ''shop1''"]
  by (simp add: example_route_def example_args_def truthy_def)

section \<open>The entity locator\<close>

text \<open>
  C2. With variants \<open>v1\<close> and \<open>v2\<close> loaded, \<open>variantId = v3\<close> and \<open>optionId = o1\<close>, no
  variant is located, yet the option lookup is entered and reads the \<open>options\<close> of the
  missing variant: the locator, and with it the render pass of the hook, ends in a
  \<open>TypeError\<close>.
\<close>

theorem locator_reads_options_of_missing_variant:
  "locate (Some example_product) (Some ''v3'') (Some ''o1'') = Inl TypeError \<and>
   useProduct (example_route\<lparr> rp_variantId := Some ''v3'', rp_optionId := Some ''o1'' \<rparr>)
     example_args (Some ''shop1'') example_world = Inl TypeError"
  by (simp add: locate_def useProduct_def useProduct_ids_def js_or_def truthy_def find_by_id_def
      example_product_def example_variants_def example_world_def example_route_def
      example_args_def)

section \<open>The inventory form\<close>

text \<open>
  C10. Whenever a loaded \<open>inventoryInfo\<close> arrives, the backorder-allowed state is set to
  \<open>true\<close>, whatever the loaded \<open>canBackorder\<close> is, \<open>false\<close> included.
\<close>

theorem backorder_initialised_true:
  "fs_canBackorder (inventoryInfoEffect (Some info) fs) = Some True \<and>
   fs_canBackorder (inventoryInfoEffect (Some (info\<lparr> canBackorder := Some False \<rparr>)) fs) = Some True"
  by (simp add: inventoryInfoEffect_def bool_or_def)

section \<open>Effects of the handlers\<close>

lemma try_await_resolved:
  "mutate env req = None \<Longrightarrow> try_await env req f g w = f (submit req w)"
  by (simp add: try_await_def)

lemma try_await_rejected:
  "mutate env req = Some e \<Longrightarrow> try_await env req f g w = g e (submit req w)"
  by (simp add: try_await_def)

lemma world_simps [simp]:
  "requests (submit req w) = requests w @ [req]"
  "notifications (submit req w) = notifications w"
  "navigations (submit req w) = navigations w"
  "cache (submit req w) = cache w"
  "requests (notify n w) = requests w"
  "notifications (notify n w) = notifications w @ [n]"
  "navigations (notify n w) = navigations w"
  "cache (notify n w) = cache w"
  "requests (push u w) = requests w"
  "notifications (push u w) = notifications w"
  "navigations (push u w) = navigations w @ [u]"
  "cache (push u w) = cache w"
  by (simp_all add: submit_def notify_def push_def)

lemmas handler_defs =
  onArchiveProduct_def onCloneProduct_def onCreateVariant_def onToggleProductVisibility_def
  onUpdateProduct_def handleDeleteProductTag_def onUpdateProductVariant_def
  onToggleVariantVisibility_def onUpdateVariantInventoryInfo_def
  onRecalculateReservedSimpleInventory_def

lemma example_selection_eq:
  "example_selection =
     \<lparr> r_productId = Some ''p1'', r_variantId = Some ''v1'', r_optionId = Some ''o1'',
       r_shopId = Some ''shop1'', r_productVariantId = Some ''o1'' \<rparr>"
  by (simp add: example_selection_def useVariantInventory_ids_def example_route_def
      example_args_def js_or_def truthy_def Let_def)

section \<open>Archive and clone\<close>

text \<open>
  C1, as the spec states it, at a rejecting encoder: \<open>onArchiveProduct\<close> and
  \<open>onCloneProduct\<close> await \<open>getOpaqueIds\<close> before their \<open>try\<close> block, so the rejection
  leaves the handler: its promise rejects, and no notification is shown.
\<close>

theorem encoder_rejection_leaves_the_handler_counterexample:
  "onArchiveProduct encoder_rejects (Some ''shop1'') example_product ''/products'' example_world
     = (example_world, Rejected (EncodeError ''no such id'')) \<and>
   onCloneProduct encoder_rejects (Some ''shop1'') ''p1'' example_world
     = (example_world, Rejected (EncodeError ''no such id''))"
  by (simp add: onArchiveProduct_def onCloneProduct_def encoder_rejects_def)

text \<open>
  C1, amended. For archive-product and clone-product, a rejection of the mutation call
  is caught at the call site: the request has been submitted, exactly one error
  notification is added, nothing else happens and the handler's promise resolves. A
  rejection of the opaque-identifier encoding is not caught: the handler's promise
  rejects with that error, with no request, no notification and no navigation.
\<close>

theorem archive_and_clone_failures:
  "(getOpaqueIds env [(''Product'', ident p)] = Inr ids \<and>
    mutate env (ArchiveProducts shopId ids) = Some err \<longrightarrow>
      onArchiveProduct env shopId p redirectUrl w =
        (notify (Toast ''productDetailEdit.archiveProductsFail'' (Some err) SevError)
           (submit (ArchiveProducts shopId ids) w), Resolved)) \<and>
   (getOpaqueIds env [(''Product'', ident p)] = Inl err \<longrightarrow>
      onArchiveProduct env shopId p redirectUrl w = (w, Rejected err)) \<and>
   (getOpaqueIds env [(''Product'', i)] = Inr ids \<and>
    mutate env (CloneProducts shopId ids) = Some err \<longrightarrow>
      onCloneProduct env shopId i w =
        (notify (Toast ''productDetailEdit.cloneProductFail'' (Some err) SevError)
           (submit (CloneProducts shopId ids) w), Resolved)) \<and>
   (getOpaqueIds env [(''Product'', i)] = Inl err \<longrightarrow>
      onCloneProduct env shopId i w = (w, Rejected err))"
  by (simp add: onArchiveProduct_def onCloneProduct_def try_await_rejected)

theorem archive_and_clone_failures_witness:
  "getOpaqueIds remote_rejects [(''Product'', ident example_product)] = Inr [''Product:p1''] \<and>
   mutate remote_rejects (ArchiveProducts (Some ''shop1'') [''Product:p1'']) =
     Some (RemoteError ''rejected'') \<and>
   onArchiveProduct remote_rejects (Some ''shop1'') example_product ''/products'' example_world =
     (example_world
        \<lparr> requests := [ArchiveProducts (Some ''shop1'') [''Product:p1'']],
          notifications := [Toast ''productDetailEdit.archiveProductsFail''
                              (Some (RemoteError ''rejected'')) SevError] \<rparr>,
      Resolved) \<and>
   getOpaqueIds encoder_rejects [(''Product'', ''p1'')] = Inl (EncodeError ''no such id'') \<and>
   onCloneProduct encoder_rejects (Some ''shop1'') ''p1'' example_world =
     (example_world, Rejected (EncodeError ''no such id''))"
  using archive_and_clone_failures [of remote_rejects example_product "[''Product:p1'']"
      "Some ''shop1''" "RemoteError ''rejected''" "''/products''" example_world "''p1''"]
    archive_and_clone_failures [of encoder_rejects example_product "[''Product:p1'']"
      "Some ''shop1''" "EncodeError ''no such id''" "''/products''" example_world "''p1''"]
  by (simp add: remote_rejects_def remote_ok_def encoder_rejects_def example_product_def
      example_world_def submit_def notify_def)

section \<open>Shop id overrides\<close>

text \<open>
  C3, at inputs where it fails. With the resolved shop id \<open>shop1\<close>:
  \<open>onToggleVariantVisibility\<close> called without an override submits \<open>shopId\<close> undefined
  (its default is \<open>shopId._id\<close>, a property of a string);
  \<open>onUpdateVariantInventoryInfo\<close> called with the override \<open>shop2\<close> submits \<open>shop1\<close>;
  \<open>onRecalculateReservedSimpleInventory\<close> called with \<open>productVariantId = o7\<close> and no
  shop override submits \<open>o7\<close> as the shop id.
\<close>

theorem shop_override_not_honoured:
  "requests (fst (onToggleVariantVisibility remote_ok (Some ''shop1'')
      (Some \<lparr> tv_variant = Some \<lparr> ident = ''v1'', isVisible = Some True \<rparr>, tv_shopId = None \<rparr>)
      example_world)) =
     [UpdateProductVariant (Some ''v1'') None (IsVisible False)] \<and>
   requests (fst (onUpdateVariantInventoryInfo remote_ok example_selection
      (Some \<lparr> ui_inventoryInput = None, ui_productId = None, ui_productVariantId = None,
              ui_shopId = Some ''shop2'' \<rparr>) example_world)) =
     [UpdateSimpleInventory None (Some ''p1'') (Some ''o1'') (Some ''shop1'')] \<and>
   requests (fst (onRecalculateReservedSimpleInventory remote_ok example_selection
      (Some \<lparr> rr_productId = None, rr_productVariantId = Some ''o7'', rr_shopId = None \<rparr>)
      example_world)) =
     [RecalculateReservedSimpleInventory (Some ''p1'') (Some ''o7'') (Some ''o7'')] \<and>
   r_shopId example_selection = Some ''shop1''"
  by (simp add: onToggleVariantVisibility_def onUpdateVariantInventoryInfo_def
      onRecalculateReservedSimpleInventory_def default_shopId_id_def js_default_def js_not_def
      try_await_def remote_ok_def example_world_def example_selection_eq Let_def)

section \<open>The cached product\<close>

lemma try_await_cache:
  "(\<And>v. cache (f v) = cache v) \<Longrightarrow> (\<And>e v. cache (g e v) = cache v) \<Longrightarrow>
   cache (try_await env req f g w) = cache w"
  by (simp add: try_await_def split: option.splits)

lemma invoke_cache: "cache (fst (invoke env sel product op w)) = cache w"
  by (cases op)
     (simp_all add: handler_defs try_await_cache Let_def split: option.splits sum.splits)

lemma foldl_props:
  "foldl (\<lambda>q s. q\<lparr> props := (props q)(service s @ ''Msg'' \<mapsto> message s) \<rparr>) p entries =
     p\<lparr> props := props p ++ map_of (rev (map (\<lambda>s. (service s @ ''Msg'', message s)) entries)) \<rparr>"
proof (induction entries arbitrary: p)
  case Nil
  show ?case by simp
next
  case (Cons e es)
  let ?k = "service e @ ''Msg''"
  let ?M = "map_of (rev (map (\<lambda>s. (service s @ ''Msg'', message s)) es))"
  have "(props p)(?k \<mapsto> message e) ++ m = props p ++ ([?k \<mapsto> message e] ++ m)" for m
    by (rule ext) (simp add: map_add_def split: option.splits)
  then have maps: "(props p)(?k \<mapsto> message e) ++ ?M = props p ++ ([?k \<mapsto> message e] ++ ?M)" .
  have "foldl (\<lambda>q s. q\<lparr> props := (props q)(service s @ ''Msg'' \<mapsto> message s) \<rparr>) p (e # es) =
        foldl (\<lambda>q s. q\<lparr> props := (props q)(service s @ ''Msg'' \<mapsto> message s) \<rparr>)
          (p\<lparr> props := (props p)(?k \<mapsto> message e) \<rparr>) es"
    by (simp only: foldl_Cons)
  also have "\<dots> = (p\<lparr> props := (props p)(?k \<mapsto> message e) \<rparr>)
        \<lparr> props := props (p\<lparr> props := (props p)(?k \<mapsto> message e) \<rparr>) ++ ?M \<rparr>"
    by (rule Cons.IH)
  also have "\<dots> = p\<lparr> props := (props p)(?k \<mapsto> message e) ++ ?M \<rparr>"
    by simp
  also have "\<dots> = p\<lparr> props := props p ++ ([?k \<mapsto> message e] ++ ?M) \<rparr>"
    by (simp only: maps)
  also have "[?k \<mapsto> message e] ++ ?M =
        map_of (rev (map (\<lambda>s. (service s @ ''Msg'', message s)) (e # es)))"
    by (simp only: list.map rev.simps map_of_append map_of.simps fst_conv snd_conv)
  finally show ?case .
qed

lemma socialMetadataToProps_eq:
  "socialMetadataToProps p =
     p\<lparr> props :=
          (case socialMetadata p of
             None \<Rightarrow> props p
           | Some entries \<Rightarrow>
               props p ++ map_of (rev (map (\<lambda>s. (service s @ ''Msg'', message s)) entries))) \<rparr>"
  by (simp add: socialMetadataToProps_def foldl_props split: option.splits)

lemma useProduct_world:
  "useProduct rp a cur w = Inr (w', h) \<Longrightarrow>
     w' = w\<lparr> cache := map_option socialMetadataToProps (cache w) \<rparr>"
  by (auto simp: useProduct_def Let_def split: sum.splits)

lemma useProduct_example:
  "useProduct example_route example_args (Some ''shop1'') example_world =
     Inr (example_world\<lparr> cache := Some (socialMetadataToProps example_product) \<rparr>,
          \<lparr> h_selection = useProduct_ids example_route example_args (Some ''shop1''),
            h_variant = Some (hd example_variants),
            h_option = Some \<lparr> ident = ''o1'', isVisible = Some False \<rparr> \<rparr>)"
proof -
  have loc: "locate (Some example_product) (Some ''v1'') (Some ''o1'') =
      Inr (Some (hd example_variants), Some \<lparr> ident = ''o1'', isVisible = Some False \<rparr>)"
    by (simp add: locate_def truthy_def find_by_id_def example_product_def example_variants_def)
  show ?thesis
    by (simp add: useProduct_def useProduct_ids_def example_route_def example_args_def
        js_or_def truthy_def loc [unfolded truthy_def] example_world_def)
qed

lemma socialMetadataToProps_example:
  "socialMetadataToProps example_product \<noteq> example_product"
proof -
  have "props (socialMetadataToProps example_product) ''twitterMsg'' = Some ''hello''"
    by (simp add: socialMetadataToProps_def example_product_def)
  moreover have "props example_product ''twitterMsg'' = None"
    by (simp add: example_product_def)
  ultimately show ?thesis
    by (metis option.distinct(1))
qed

text \<open>
  C4, as the spec states it, at a product with one social metadata entry: a render pass
  of \<open>useProduct\<close> completes and leaves a product in the cache that differs from the one
  that was fetched (it has gained \<open>twitterMsg\<close>), with no refetch.
\<close>

theorem render_pass_writes_the_product_counterexample:
  "\<not> isl (useProduct example_route example_args (Some ''shop1'') example_world) \<and>
   cache (fst (projr (useProduct example_route example_args (Some ''shop1'') example_world)))
     \<noteq> cache example_world"
  unfolding useProduct_example
  using socialMetadataToProps_example by (simp add: example_world_def)

text \<open>
  C4, amended. No mutation operation writes the cached product. The only local write
  is the render pass of \<open>useProduct\<close>: when it completes, the cached product is replaced
  by its conversion, which keeps every field and sets, for each social metadata entry
  in order, the property named \<open>service\<close> followed by \<open>Msg\<close> to the entry's \<open>message\<close>
  (a later entry for the same service wins).
\<close>

theorem handlers_leave_the_product_to_the_render_pass:
  "cache (fst (invoke env sel product op w)) = cache w \<and>
   (useProduct rp a cur w = Inr (w', h) \<longrightarrow>
      w' = w\<lparr> cache := map_option socialMetadataToProps (cache w) \<rparr>) \<and>
   socialMetadataToProps p =
     p\<lparr> props :=
          (case socialMetadata p of
             None \<Rightarrow> props p
           | Some entries \<Rightarrow>
               props p ++ map_of (rev (map (\<lambda>s. (service s @ ''Msg'', message s)) entries))) \<rparr>"
proof (intro conjI impI)
  show "cache (fst (invoke env sel product op w)) = cache w"
    by (rule invoke_cache)
  show "w' = w\<lparr> cache := map_option socialMetadataToProps (cache w) \<rparr>"
    if "useProduct rp a cur w = Inr (w', h)"
    using that by (rule useProduct_world)
qed (rule socialMetadataToProps_eq)

theorem handlers_leave_the_product_to_the_render_pass_witness:
  "useProduct example_route example_args (Some ''shop1'') example_world =
     Inr (example_world\<lparr> cache := Some (socialMetadataToProps example_product) \<rparr>,
          \<lparr> h_selection = useProduct_ids example_route example_args (Some ''shop1''),
            h_variant = Some (hd example_variants),
            h_option = Some \<lparr> ident = ''o1'', isVisible = Some False \<rparr> \<rparr>) \<and>
   example_world\<lparr> cache := Some (socialMetadataToProps example_product) \<rparr> =
     example_world\<lparr> cache := map_option socialMetadataToProps (cache example_world) \<rparr> \<and>
   cache (fst (invoke remote_ok example_selection (Some example_product)
      OnToggleProductVisibility example_world)) = cache example_world"
proof -
  note inst = handlers_leave_the_product_to_the_render_pass [of remote_ok example_selection
      "Some example_product" OnToggleProductVisibility example_world
      example_route example_args "Some ''shop1''"
      "example_world\<lparr> cache := Some (socialMetadataToProps example_product) \<rparr>"
      "\<lparr> h_selection = useProduct_ids example_route example_args (Some ''shop1''),
         h_variant = Some (hd example_variants),
         h_option = Some \<lparr> ident = ''o1'', isVisible = Some False \<rparr> \<rparr>"
      example_product]
  from inst have handler: "cache (fst (invoke remote_ok example_selection (Some example_product)
      OnToggleProductVisibility example_world)) = cache example_world"
    by (rule conjunct1)
  from inst have render: "example_world\<lparr> cache := Some (socialMetadataToProps example_product) \<rparr> =
      example_world\<lparr> cache := map_option socialMetadataToProps (cache example_world) \<rparr>"
    using useProduct_example by (elim conjE impE) assumption
  show ?thesis
    using handler render useProduct_example by (intro conjI)
qed

section \<open>Notifications\<close>

text \<open>
  Whatever an invocation submits, the outcome of that call decides what is shown.
\<close>

lemma submitted_request_decides_the_notification:
  assumes "invoke env sel product op w = (w', r)"
    and "requests w' = requests w @ [req]"
  shows "(mutate env req = None \<longrightarrow>
            (\<exists>n. notifications w' = notifications w @ [n] \<and> severity_of n = SevSuccess)) \<and>
         (mutate env req \<noteq> None \<longrightarrow>
            (\<exists>n. notifications w' = notifications w @ [n] \<and> severity_of n = SevError) \<and>
            navigations w' = navigations w) \<and>
         r = Resolved"
  using assms
  by (cases op)
     (auto simp: handler_defs try_await_def Let_def
           split: option.splits sum.splits)

text \<open>
  C5. Every mutation operation whose inputs let it reach its remote call (the encoding
  succeeded, the destructuring defaults and the payload could be evaluated) submits
  exactly the request built from those inputs, and its promise resolves. When the
  remote call resolves, exactly one notification is added, the operation's success
  notification, and archive-product then pushes the redirect target. When the remote
  call rejects, exactly one notification is added, the operation's error notification,
  and nothing is pushed to the history.
\<close>

theorem remote_outcome_decides_the_notification:
  "(getOpaqueIds env [(''Product'', ident p)] = Inr archiveIds \<longrightarrow>
    (let req = ArchiveProducts (r_shopId sel) archiveIds;
         res = invoke env sel product (OnArchiveProduct p redirectUrl) w
     in requests (fst res) = requests w @ [req] \<and> snd res = Resolved \<and>
        (mutate env req = None \<longrightarrow>
           notifications (fst res) = notifications w @ [Toast ''productDetailEdit.archiveProductsSuccess'' None SevSuccess] \<and>
           navigations (fst res) = navigations w @ [redirectUrl]) \<and>
        (mutate env req = Some err \<longrightarrow>
           notifications (fst res) = notifications w @ [Toast ''productDetailEdit.archiveProductsFail'' (Some err) SevError] \<and>
           navigations (fst res) = navigations w))) \<and>
  (getOpaqueIds env [(''Product'', i)] = Inr cloneIds \<longrightarrow>
    (let req = CloneProducts (r_shopId sel) cloneIds;
         res = invoke env sel product (OnCloneProduct i) w
     in requests (fst res) = requests w @ [req] \<and> snd res = Resolved \<and>
        (mutate env req = None \<longrightarrow>
           notifications (fst res) = notifications w @ [Toast ''productDetailEdit.cloneProductSuccess'' None SevSuccess] \<and>
           navigations (fst res) = navigations w) \<and>
        (mutate env req = Some err \<longrightarrow>
           notifications (fst res) = notifications w @ [Toast ''productDetailEdit.cloneProductFail'' (Some err) SevError] \<and>
           navigations (fst res) = navigations w))) \<and>
  (default_product_id (cv_parentId cv) product = Inr parentIdLocal \<longrightarrow>
    (let req = CreateProductVariant parentIdLocal (js_default (cv_shopId cv) (r_shopId sel));
         res = invoke env sel product (OnCreateVariant (Some cv)) w
     in requests (fst res) = requests w @ [req] \<and> snd res = Resolved \<and>
        (mutate env req = None \<longrightarrow>
           notifications (fst res) = notifications w @ [Toast ''productDetailEdit.addVariant'' None SevSuccess] \<and>
           navigations (fst res) = navigations w) \<and>
        (mutate env req = Some err \<longrightarrow>
           notifications (fst res) = notifications w @ [Toast ''productDetailEdit.addVariantFail'' (Some err) SevError] \<and>
           navigations (fst res) = navigations w))) \<and>
  (product = Some loaded \<longrightarrow>
    (let req = UpdateProduct (Some (ident loaded)) (r_shopId sel) (IsVisible (js_not (isVisible loaded)));
         res = invoke env sel product OnToggleProductVisibility w
     in requests (fst res) = requests w @ [req] \<and> snd res = Resolved \<and>
        (mutate env req = None \<longrightarrow>
           notifications (fst res) = notifications w @ [Toast ''productDetailEdit.updateProductFieldSuccess'' None SevSuccess] \<and>
           navigations (fst res) = navigations w) \<and>
        (mutate env req = Some err \<longrightarrow>
           notifications (fst res) = notifications w @ [Toast ''productDetailEdit.updateProductFieldFail'' (Some err) SevError] \<and>
           navigations (fst res) = navigations w))) \<and>
  (default_product_id (up_productId up) product = Inr productIdLocal \<longrightarrow>
    (let req = UpdateProduct productIdLocal (js_default (up_shopId up) (r_shopId sel)) (Fields (up_product up));
         res = invoke env sel product (OnUpdateProduct (Some up)) w
     in requests (fst res) = requests w @ [req] \<and> snd res = Resolved \<and>
        (mutate env req = None \<longrightarrow>
           notifications (fst res) = notifications w @ [Snackbar ''productDetailEdit.updateProductFieldSuccess'' SevSuccess] \<and>
           navigations (fst res) = navigations w) \<and>
        (mutate env req = Some err \<longrightarrow>
           notifications (fst res) = notifications w @ [Snackbar ''productDetailEdit.updateProductFieldFail'' SevError] \<and>
           navigations (fst res) = navigations w))) \<and>
  (default_product_id (dt_productId dt) product = Inr tagProductId \<and>
    filteredTagIds (js_default (dt_product dt) product) (dt_tag dt) = Inr tagIds \<longrightarrow>
    (let req = UpdateProduct tagProductId (js_default (dt_shopId dt) (r_shopId sel)) (TagIds tagIds);
         res = invoke env sel product (HandleDeleteProductTag (Some dt)) w
     in requests (fst res) = requests w @ [req] \<and> snd res = Resolved \<and>
        (mutate env req = None \<longrightarrow>
           notifications (fst res) = notifications w @ [Snackbar ''productDetailEdit.removeProductTagSuccess'' SevSuccess] \<and>
           navigations (fst res) = navigations w) \<and>
        (mutate env req = Some err \<longrightarrow>
           notifications (fst res) = notifications w @ [Snackbar ''productDetailEdit.removeProductTagFail'' SevError] \<and>
           navigations (fst res) = navigations w))) \<and>
  (let req = UpdateProductVariant (uv_variantId uv) (js_default (uv_shopId uv) (r_shopId sel))
            (Fields (uv_variant uv));
         res = invoke env sel product (OnUpdateProductVariant (Some uv)) w
     in requests (fst res) = requests w @ [req] \<and> snd res = Resolved \<and>
        (mutate env req = None \<longrightarrow>
           notifications (fst res) = notifications w @ [Toast ''productDetailEdit.updateProductFieldSuccess'' None SevSuccess] \<and>
           navigations (fst res) = navigations w) \<and>
        (mutate env req = Some err \<longrightarrow>
           notifications (fst res) = notifications w @ [Toast ''productDetailEdit.updateProductFieldFail'' (Some err) SevError] \<and>
           navigations (fst res) = navigations w)) \<and>
  (default_shopId_id (tv_shopId tv) (r_shopId sel) = Inr shopIdLocal \<and> tv_variant tv = Some v \<longrightarrow>
    (let req = UpdateProductVariant (Some (ident v)) shopIdLocal (IsVisible (js_not (isVisible v)));
         res = invoke env sel product (OnToggleVariantVisibility (Some tv)) w
     in requests (fst res) = requests w @ [req] \<and> snd res = Resolved \<and>
        (mutate env req = None \<longrightarrow>
           notifications (fst res) = notifications w @ [Toast ''productDetailEdit.updateProductFieldSuccess'' None SevSuccess] \<and>
           navigations (fst res) = navigations w) \<and>
        (mutate env req = Some err \<longrightarrow>
           notifications (fst res) = notifications w @ [Toast ''productDetailEdit.updateProductFieldFail'' (Some err) SevError] \<and>
           navigations (fst res) = navigations w))) \<and>
  (let req = UpdateSimpleInventory (ui_inventoryInput ui)
            (js_default (ui_productId ui) (r_productId sel))
            (js_default (ui_productVariantId ui) (r_productVariantId sel))
            (js_default (ui_productVariantId ui) (r_shopId sel));
         res = invoke env sel product (OnUpdateVariantInventoryInfo (Some ui)) w
     in requests (fst res) = requests w @ [req] \<and> snd res = Resolved \<and>
        (mutate env req = None \<longrightarrow>
           notifications (fst res) = notifications w @ [Snackbar ''productDetailEdit.updateProductFieldSuccess'' SevSuccess] \<and>
           navigations (fst res) = navigations w) \<and>
        (mutate env req = Some err \<longrightarrow>
           notifications (fst res) = notifications w @ [Snackbar ''productDetailEdit.removeProductTagFail'' SevError] \<and>
           navigations (fst res) = navigations w)) \<and>
  (let req = RecalculateReservedSimpleInventory
            (js_default (rr_productId rr) (r_productId sel))
            (js_default (rr_productVariantId rr) (r_productVariantId sel))
            (js_default (rr_productVariantId rr) (r_shopId sel));
         res = invoke env sel product (OnRecalculateReservedSimpleInventory (Some rr)) w
     in requests (fst res) = requests w @ [req] \<and> snd res = Resolved \<and>
        (mutate env req = None \<longrightarrow>
           notifications (fst res) = notifications w @ [Snackbar ''productDetailEdit.updateProductFieldSuccess'' SevSuccess] \<and>
           navigations (fst res) = navigations w) \<and>
        (mutate env req = Some err \<longrightarrow>
           notifications (fst res) = notifications w @ [Snackbar ''productDetailEdit.removeProductTagFail'' SevError] \<and>
           navigations (fst res) = navigations w))"
  by (intro conjI impI)
     (simp_all add: handler_defs try_await_def Let_def split: option.splits)

theorem remote_outcome_decides_the_notification_witness:
  "requests (fst (invoke remote_ok example_selection (Some example_product)
      (OnArchiveProduct example_product ''/products'') example_world)) =
     [ArchiveProducts (Some ''shop1'') [''Product:p1'']] \<and>
   notifications (fst (invoke remote_ok example_selection (Some example_product)
      (OnArchiveProduct example_product ''/products'') example_world)) =
     [Toast ''productDetailEdit.archiveProductsSuccess'' None SevSuccess] \<and>
   navigations (fst (invoke remote_ok example_selection (Some example_product)
      (OnArchiveProduct example_product ''/products'') example_world)) = [''/products''] \<and>
   requests (fst (invoke remote_rejects example_selection (Some example_product)
      (OnArchiveProduct example_product ''/products'') example_world)) =
     [ArchiveProducts (Some ''shop1'') [''Product:p1'']] \<and>
   notifications (fst (invoke remote_rejects example_selection (Some example_product)
      (OnArchiveProduct example_product ''/products'') example_world)) =
     [Toast ''productDetailEdit.archiveProductsFail'' (Some (RemoteError ''rejected'')) SevError] \<and>
   navigations (fst (invoke remote_rejects example_selection (Some example_product)
      (OnArchiveProduct example_product ''/products'') example_world)) = [] \<and>
   requests (fst (invoke remote_ok example_selection (Some example_product)
      (OnCloneProduct ''p1'') example_world)) =
     [CloneProducts (Some ''shop1'') [''Product:p1'']] \<and>
   notifications (fst (invoke remote_ok example_selection (Some example_product)
      (OnCloneProduct ''p1'') example_world)) =
     [Toast ''productDetailEdit.cloneProductSuccess'' None SevSuccess] \<and>
   navigations (fst (invoke remote_ok example_selection (Some example_product)
      (OnCloneProduct ''p1'') example_world)) = [] \<and>
   requests (fst (invoke remote_rejects example_selection (Some example_product)
      (OnCloneProduct ''p1'') example_world)) =
     [CloneProducts (Some ''shop1'') [''Product:p1'']] \<and>
   notifications (fst (invoke remote_rejects example_selection (Some example_product)
      (OnCloneProduct ''p1'') example_world)) =
     [Toast ''productDetailEdit.cloneProductFail'' (Some (RemoteError ''rejected'')) SevError] \<and>
   navigations (fst (invoke remote_rejects example_selection (Some example_product)
      (OnCloneProduct ''p1'') example_world)) = [] \<and>
   requests (fst (invoke remote_ok example_selection (Some example_product)
      (OnCreateVariant (Some \<lparr> cv_parentId = None, cv_shopId = None \<rparr>)) example_world)) =
     [CreateProductVariant (Some ''p1'') (Some ''shop1'')] \<and>
   notifications (fst (invoke remote_ok example_selection (Some example_product)
      (OnCreateVariant (Some \<lparr> cv_parentId = None, cv_shopId = None \<rparr>)) example_world)) =
     [Toast ''productDetailEdit.addVariant'' None SevSuccess] \<and>
   navigations (fst (invoke remote_ok example_selection (Some example_product)
      (OnCreateVariant (Some \<lparr> cv_parentId = None, cv_shopId = None \<rparr>)) example_world)) = [] \<and>
   requests (fst (invoke remote_rejects example_selection (Some example_product)
      (OnCreateVariant (Some \<lparr> cv_parentId = None, cv_shopId = None \<rparr>)) example_world)) =
     [CreateProductVariant (Some ''p1'') (Some ''shop1'')] \<and>
   notifications (fst (invoke remote_rejects example_selection (Some example_product)
      (OnCreateVariant (Some \<lparr> cv_parentId = None, cv_shopId = None \<rparr>)) example_world)) =
     [Toast ''productDetailEdit.addVariantFail'' (Some (RemoteError ''rejected'')) SevError] \<and>
   navigations (fst (invoke remote_rejects example_selection (Some example_product)
      (OnCreateVariant (Some \<lparr> cv_parentId = None, cv_shopId = None \<rparr>)) example_world)) = [] \<and>
   requests (fst (invoke remote_ok example_selection (Some example_product)
      OnToggleProductVisibility example_world)) =
     [UpdateProduct (Some ''p1'') (Some ''shop1'') (IsVisible False)] \<and>
   notifications (fst (invoke remote_ok example_selection (Some example_product)
      OnToggleProductVisibility example_world)) =
     [Toast ''productDetailEdit.updateProductFieldSuccess'' None SevSuccess] \<and>
   navigations (fst (invoke remote_ok example_selection (Some example_product)
      OnToggleProductVisibility example_world)) = [] \<and>
   requests (fst (invoke remote_rejects example_selection (Some example_product)
      OnToggleProductVisibility example_world)) =
     [UpdateProduct (Some ''p1'') (Some ''shop1'') (IsVisible False)] \<and>
   notifications (fst (invoke remote_rejects example_selection (Some example_product)
      OnToggleProductVisibility example_world)) =
     [Toast ''productDetailEdit.updateProductFieldFail'' (Some (RemoteError ''rejected'')) SevError] \<and>
   navigations (fst (invoke remote_rejects example_selection (Some example_product)
      OnToggleProductVisibility example_world)) = [] \<and>
   requests (fst (invoke remote_ok example_selection (Some example_product)
      (OnUpdateProduct (Some \<lparr> up_product = Some [(''title'', ''Chair'')], up_productId = None, up_shopId = Some ''shop2'' \<rparr>)) example_world)) =
     [UpdateProduct (Some ''p1'') (Some ''shop2'') (Fields (Some [(''title'', ''Chair'')]))] \<and>
   notifications (fst (invoke remote_ok example_selection (Some example_product)
      (OnUpdateProduct (Some \<lparr> up_product = Some [(''title'', ''Chair'')], up_productId = None, up_shopId = Some ''shop2'' \<rparr>)) example_world)) =
     [Snackbar ''productDetailEdit.updateProductFieldSuccess'' SevSuccess] \<and>
   navigations (fst (invoke remote_ok example_selection (Some example_product)
      (OnUpdateProduct (Some \<lparr> up_product = Some [(''title'', ''Chair'')], up_productId = None, up_shopId = Some ''shop2'' \<rparr>)) example_world)) = [] \<and>
   requests (fst (invoke remote_rejects example_selection (Some example_product)
      (OnUpdateProduct (Some \<lparr> up_product = Some [(''title'', ''Chair'')], up_productId = None, up_shopId = Some ''shop2'' \<rparr>)) example_world)) =
     [UpdateProduct (Some ''p1'') (Some ''shop2'') (Fields (Some [(''title'', ''Chair'')]))] \<and>
   notifications (fst (invoke remote_rejects example_selection (Some example_product)
      (OnUpdateProduct (Some \<lparr> up_product = Some [(''title'', ''Chair'')], up_productId = None, up_shopId = Some ''shop2'' \<rparr>)) example_world)) =
     [Snackbar ''productDetailEdit.updateProductFieldFail'' SevError] \<and>
   navigations (fst (invoke remote_rejects example_selection (Some example_product)
      (OnUpdateProduct (Some \<lparr> up_product = Some [(''title'', ''Chair'')], up_productId = None, up_shopId = Some ''shop2'' \<rparr>)) example_world)) = [] \<and>
   requests (fst (invoke remote_ok example_selection (Some example_product)
      (HandleDeleteProductTag (Some \<lparr> dt_tag = Some ''t1'', dt_product = None, dt_productId = None, dt_shopId = None \<rparr>)) example_world)) =
     [UpdateProduct (Some ''p1'') (Some ''shop1'') (TagIds [''t2''])] \<and>
   notifications (fst (invoke remote_ok example_selection (Some example_product)
      (HandleDeleteProductTag (Some \<lparr> dt_tag = Some ''t1'', dt_product = None, dt_productId = None, dt_shopId = None \<rparr>)) example_world)) =
     [Snackbar ''productDetailEdit.removeProductTagSuccess'' SevSuccess] \<and>
   navigations (fst (invoke remote_ok example_selection (Some example_product)
      (HandleDeleteProductTag (Some \<lparr> dt_tag = Some ''t1'', dt_product = None, dt_productId = None, dt_shopId = None \<rparr>)) example_world)) = [] \<and>
   requests (fst (invoke remote_rejects example_selection (Some example_product)
      (HandleDeleteProductTag (Some \<lparr> dt_tag = Some ''t1'', dt_product = None, dt_productId = None, dt_shopId = None \<rparr>)) example_world)) =
     [UpdateProduct (Some ''p1'') (Some ''shop1'') (TagIds [''t2''])] \<and>
   notifications (fst (invoke remote_rejects example_selection (Some example_product)
      (HandleDeleteProductTag (Some \<lparr> dt_tag = Some ''t1'', dt_product = None, dt_productId = None, dt_shopId = None \<rparr>)) example_world)) =
     [Snackbar ''productDetailEdit.removeProductTagFail'' SevError] \<and>
   navigations (fst (invoke remote_rejects example_selection (Some example_product)
      (HandleDeleteProductTag (Some \<lparr> dt_tag = Some ''t1'', dt_product = None, dt_productId = None, dt_shopId = None \<rparr>)) example_world)) = [] \<and>
   requests (fst (invoke remote_ok example_selection (Some example_product)
      (OnUpdateProductVariant (Some \<lparr> uv_variant = Some [(''title'', ''Red'')], uv_variantId = Some ''v1'', uv_shopId = None \<rparr>)) example_world)) =
     [UpdateProductVariant (Some ''v1'') (Some ''shop1'') (Fields (Some [(''title'', ''Red'')]))] \<and>
   notifications (fst (invoke remote_ok example_selection (Some example_product)
      (OnUpdateProductVariant (Some \<lparr> uv_variant = Some [(''title'', ''Red'')], uv_variantId = Some ''v1'', uv_shopId = None \<rparr>)) example_world)) =
     [Toast ''productDetailEdit.updateProductFieldSuccess'' None SevSuccess] \<and>
   navigations (fst (invoke remote_ok example_selection (Some example_product)
      (OnUpdateProductVariant (Some \<lparr> uv_variant = Some [(''title'', ''Red'')], uv_variantId = Some ''v1'', uv_shopId = None \<rparr>)) example_world)) = [] \<and>
   requests (fst (invoke remote_rejects example_selection (Some example_product)
      (OnUpdateProductVariant (Some \<lparr> uv_variant = Some [(''title'', ''Red'')], uv_variantId = Some ''v1'', uv_shopId = None \<rparr>)) example_world)) =
     [UpdateProductVariant (Some ''v1'') (Some ''shop1'') (Fields (Some [(''title'', ''Red'')]))] \<and>
   notifications (fst (invoke remote_rejects example_selection (Some example_product)
      (OnUpdateProductVariant (Some \<lparr> uv_variant = Some [(''title'', ''Red'')], uv_variantId = Some ''v1'', uv_shopId = None \<rparr>)) example_world)) =
     [Toast ''productDetailEdit.updateProductFieldFail'' (Some (RemoteError ''rejected'')) SevError] \<and>
   navigations (fst (invoke remote_rejects example_selection (Some example_product)
      (OnUpdateProductVariant (Some \<lparr> uv_variant = Some [(''title'', ''Red'')], uv_variantId = Some ''v1'', uv_shopId = None \<rparr>)) example_world)) = [] \<and>
   requests (fst (invoke remote_ok example_selection (Some example_product)
      (OnToggleVariantVisibility (Some \<lparr> tv_variant = Some \<lparr> ident = ''v2'', isVisible = Some False \<rparr>, tv_shopId = Some ''shop1'' \<rparr>)) example_world)) =
     [UpdateProductVariant (Some ''v2'') (Some ''shop1'') (IsVisible True)] \<and>
   notifications (fst (invoke remote_ok example_selection (Some example_product)
      (OnToggleVariantVisibility (Some \<lparr> tv_variant = Some \<lparr> ident = ''v2'', isVisible = Some False \<rparr>, tv_shopId = Some ''shop1'' \<rparr>)) example_world)) =
     [Toast ''productDetailEdit.updateProductFieldSuccess'' None SevSuccess] \<and>
   navigations (fst (invoke remote_ok example_selection (Some example_product)
      (OnToggleVariantVisibility (Some \<lparr> tv_variant = Some \<lparr> ident = ''v2'', isVisible = Some False \<rparr>, tv_shopId = Some ''shop1'' \<rparr>)) example_world)) = [] \<and>
   requests (fst (invoke remote_rejects example_selection (Some example_product)
      (OnToggleVariantVisibility (Some \<lparr> tv_variant = Some \<lparr> ident = ''v2'', isVisible = Some False \<rparr>, tv_shopId = Some ''shop1'' \<rparr>)) example_world)) =
     [UpdateProductVariant (Some ''v2'') (Some ''shop1'') (IsVisible True)] \<and>
   notifications (fst (invoke remote_rejects example_selection (Some example_product)
      (OnToggleVariantVisibility (Some \<lparr> tv_variant = Some \<lparr> ident = ''v2'', isVisible = Some False \<rparr>, tv_shopId = Some ''shop1'' \<rparr>)) example_world)) =
     [Toast ''productDetailEdit.updateProductFieldFail'' (Some (RemoteError ''rejected'')) SevError] \<and>
   navigations (fst (invoke remote_rejects example_selection (Some example_product)
      (OnToggleVariantVisibility (Some \<lparr> tv_variant = Some \<lparr> ident = ''v2'', isVisible = Some False \<rparr>, tv_shopId = Some ''shop1'' \<rparr>)) example_world)) = [] \<and>
   requests (fst (invoke remote_ok example_selection (Some example_product)
      (OnUpdateVariantInventoryInfo (Some \<lparr> ui_inventoryInput = None, ui_productId = None, ui_productVariantId = None, ui_shopId = None \<rparr>)) example_world)) =
     [UpdateSimpleInventory None (Some ''p1'') (Some ''o1'') (Some ''shop1'')] \<and>
   notifications (fst (invoke remote_ok example_selection (Some example_product)
      (OnUpdateVariantInventoryInfo (Some \<lparr> ui_inventoryInput = None, ui_productId = None, ui_productVariantId = None, ui_shopId = None \<rparr>)) example_world)) =
     [Snackbar ''productDetailEdit.updateProductFieldSuccess'' SevSuccess] \<and>
   navigations (fst (invoke remote_ok example_selection (Some example_product)
      (OnUpdateVariantInventoryInfo (Some \<lparr> ui_inventoryInput = None, ui_productId = None, ui_productVariantId = None, ui_shopId = None \<rparr>)) example_world)) = [] \<and>
   requests (fst (invoke remote_rejects example_selection (Some example_product)
      (OnUpdateVariantInventoryInfo (Some \<lparr> ui_inventoryInput = None, ui_productId = None, ui_productVariantId = None, ui_shopId = None \<rparr>)) example_world)) =
     [UpdateSimpleInventory None (Some ''p1'') (Some ''o1'') (Some ''shop1'')] \<and>
   notifications (fst (invoke remote_rejects example_selection (Some example_product)
      (OnUpdateVariantInventoryInfo (Some \<lparr> ui_inventoryInput = None, ui_productId = None, ui_productVariantId = None, ui_shopId = None \<rparr>)) example_world)) =
     [Snackbar ''productDetailEdit.removeProductTagFail'' SevError] \<and>
   navigations (fst (invoke remote_rejects example_selection (Some example_product)
      (OnUpdateVariantInventoryInfo (Some \<lparr> ui_inventoryInput = None, ui_productId = None, ui_productVariantId = None, ui_shopId = None \<rparr>)) example_world)) = [] \<and>
   requests (fst (invoke remote_ok example_selection (Some example_product)
      (OnRecalculateReservedSimpleInventory (Some \<lparr> rr_productId = None, rr_productVariantId = None, rr_shopId = None \<rparr>)) example_world)) =
     [RecalculateReservedSimpleInventory (Some ''p1'') (Some ''o1'') (Some ''shop1'')] \<and>
   notifications (fst (invoke remote_ok example_selection (Some example_product)
      (OnRecalculateReservedSimpleInventory (Some \<lparr> rr_productId = None, rr_productVariantId = None, rr_shopId = None \<rparr>)) example_world)) =
     [Snackbar ''productDetailEdit.updateProductFieldSuccess'' SevSuccess] \<and>
   navigations (fst (invoke remote_ok example_selection (Some example_product)
      (OnRecalculateReservedSimpleInventory (Some \<lparr> rr_productId = None, rr_productVariantId = None, rr_shopId = None \<rparr>)) example_world)) = [] \<and>
   requests (fst (invoke remote_rejects example_selection (Some example_product)
      (OnRecalculateReservedSimpleInventory (Some \<lparr> rr_productId = None, rr_productVariantId = None, rr_shopId = None \<rparr>)) example_world)) =
     [RecalculateReservedSimpleInventory (Some ''p1'') (Some ''o1'') (Some ''shop1'')] \<and>
   notifications (fst (invoke remote_rejects example_selection (Some example_product)
      (OnRecalculateReservedSimpleInventory (Some \<lparr> rr_productId = None, rr_productVariantId = None, rr_shopId = None \<rparr>)) example_world)) =
     [Snackbar ''productDetailEdit.removeProductTagFail'' SevError] \<and>
   navigations (fst (invoke remote_rejects example_selection (Some example_product)
      (OnRecalculateReservedSimpleInventory (Some \<lparr> rr_productId = None, rr_productVariantId = None, rr_shopId = None \<rparr>)) example_world)) = []"
  using remote_outcome_decides_the_notification
      [where env = remote_ok
         and sel = example_selection
         and product = "Some example_product"
         and w = example_world
         and p = example_product
         and redirectUrl = "''/products''"
         and archiveIds = "[''Product:p1'']"
         and i = "''p1''"
         and cloneIds = "[''Product:p1'']"
         and cv = "\<lparr> cv_parentId = None, cv_shopId = None \<rparr>"
         and parentIdLocal = "Some ''p1''"
         and loaded = example_product
         and up = "\<lparr> up_product = Some [(''title'', ''Chair'')], up_productId = None, up_shopId = Some ''shop2'' \<rparr>"
         and productIdLocal = "Some ''p1''"
         and dt = "\<lparr> dt_tag = Some ''t1'', dt_product = None, dt_productId = None, dt_shopId = None \<rparr>"
         and tagProductId = "Some ''p1''"
         and tagIds = "[''t2'']"
         and uv = "\<lparr> uv_variant = Some [(''title'', ''Red'')], uv_variantId = Some ''v1'', uv_shopId = None \<rparr>"
         and tv = "\<lparr> tv_variant = Some \<lparr> ident = ''v2'', isVisible = Some False \<rparr>, tv_shopId = Some ''shop1'' \<rparr>"
         and shopIdLocal = "Some ''shop1''"
         and v = "\<lparr> ident = ''v2'', isVisible = Some False \<rparr>"
         and ui = "\<lparr> ui_inventoryInput = None, ui_productId = None, ui_productVariantId = None, ui_shopId = None \<rparr>"
         and rr = "\<lparr> rr_productId = None, rr_productVariantId = None, rr_shopId = None \<rparr>"
         and err = TypeError]
    remote_outcome_decides_the_notification
      [where env = remote_rejects
         and sel = example_selection
         and product = "Some example_product"
         and w = example_world
         and p = example_product
         and redirectUrl = "''/products''"
         and archiveIds = "[''Product:p1'']"
         and i = "''p1''"
         and cloneIds = "[''Product:p1'']"
         and cv = "\<lparr> cv_parentId = None, cv_shopId = None \<rparr>"
         and parentIdLocal = "Some ''p1''"
         and loaded = example_product
         and up = "\<lparr> up_product = Some [(''title'', ''Chair'')], up_productId = None, up_shopId = Some ''shop2'' \<rparr>"
         and productIdLocal = "Some ''p1''"
         and dt = "\<lparr> dt_tag = Some ''t1'', dt_product = None, dt_productId = None, dt_shopId = None \<rparr>"
         and tagProductId = "Some ''p1''"
         and tagIds = "[''t2'']"
         and uv = "\<lparr> uv_variant = Some [(''title'', ''Red'')], uv_variantId = Some ''v1'', uv_shopId = None \<rparr>"
         and tv = "\<lparr> tv_variant = Some \<lparr> ident = ''v2'', isVisible = Some False \<rparr>, tv_shopId = Some ''shop1'' \<rparr>"
         and shopIdLocal = "Some ''shop1''"
         and v = "\<lparr> ident = ''v2'', isVisible = Some False \<rparr>"
         and ui = "\<lparr> ui_inventoryInput = None, ui_productId = None, ui_productVariantId = None, ui_shopId = None \<rparr>"
         and rr = "\<lparr> rr_productId = None, rr_productVariantId = None, rr_shopId = None \<rparr>"
         and err = "RemoteError ''rejected''"]
  by (simp add: remote_ok_def remote_rejects_def example_selection_eq example_product_def
      example_world_def default_product_id_def default_shopId_id_def filteredTagIds_def
      js_default_def js_not_def Let_def)

section \<open>Refetch\<close>

text \<open>
  C6, as the spec states it, with the query client's refetch for both queries: what the
  combined \<open>refetch\<close> of \<open>useVariantInventory\<close> returns does not wait for the inventory
  refetch and the product refetch.
\<close>

theorem combined_refetch_awaits_nothing_counterexample:
  "\<not> {InventoryQuery, ProductQuery} \<subseteq>
       awaited (snd (refetch (client_refetch InventoryQuery) (client_refetch ProductQuery)
          example_world))"
  by (simp add: refetch_def)

text \<open>
  C6, amended. The combined \<open>refetch\<close> of \<open>useVariantInventory\<close> calls the inventory
  refetch, then the product refetch, and returns \<open>undefined\<close> at once: a caller that
  awaits it waits for neither. With the query client's refetch, both fetches have been
  re-issued, inventory first, when it returns.
\<close>

theorem combined_refetch_returns_undefined:
  "refetch refetchInventory refetchProduct w =
     (fst (refetchProduct (fst (refetchInventory w))), Undefined) \<and>
   awaited (snd (refetch refetchInventory refetchProduct w)) = {} \<and>
   fetches (fst (refetch (client_refetch InventoryQuery) (client_refetch ProductQuery) w)) =
     fetches w @ [InventoryQuery, ProductQuery]"
  by (simp add: refetch_def client_refetch_def)

section \<open>Visibility toggles\<close>

text \<open>
  C8. For a loaded product with \<open>isVisible = b\<close>, toggle-product-visibility submits
  \<open>isVisible = \<not> b\<close>; for a variant with \<open>isVisible = b\<close>, toggle-variant-visibility
  submits \<open>isVisible = \<not> b\<close> (it submits nothing when neither a shop id override nor a
  resolved shop id exists, since its default then throws).
\<close>

theorem toggle_submits_the_negation:
  "(product = Some p \<and> isVisible p = Some b \<longrightarrow>
      requests (fst (onToggleProductVisibility env shopId product w)) =
        requests w @ [UpdateProduct (Some (ident p)) shopId (IsVisible (\<not> b))]) \<and>
   (tv_variant a = Some v \<and> isVisible v = Some b \<longrightarrow>
      requests (fst (onToggleVariantVisibility env shopId (Some a) w)) =
        (if tv_shopId a = None \<and> shopId = None then requests w
         else requests w @ [UpdateProductVariant (Some (ident v)) (tv_shopId a) (IsVisible (\<not> b))]))"
  by (auto simp: onToggleProductVisibility_def onToggleVariantVisibility_def try_await_def
        default_shopId_id_def js_not_def split: option.splits)

theorem toggle_submits_the_negation_witness:
  "isVisible example_product = Some True \<and>
   requests (fst (onToggleProductVisibility remote_ok (Some ''shop1'') (Some example_product)
      example_world)) = [UpdateProduct (Some ''p1'') (Some ''shop1'') (IsVisible False)] \<and>
   requests (fst (onToggleVariantVisibility remote_ok (Some ''shop1'')
      (Some \<lparr> tv_variant = Some \<lparr> ident = ''o1'', isVisible = Some False \<rparr>,
              tv_shopId = Some ''shop1'' \<rparr>) example_world)) =
     [UpdateProductVariant (Some ''o1'') (Some ''shop1'') (IsVisible True)]"
  using toggle_submits_the_negation [of "Some example_product" example_product True remote_ok
      "Some ''shop1''" example_world
      "\<lparr> tv_variant = Some \<lparr> ident = ''o1'', isVisible = Some False \<rparr>, tv_shopId = Some ''shop1'' \<rparr>"
      "\<lparr> ident = ''o1'', isVisible = Some False \<rparr>"]
    toggle_submits_the_negation [of "Some example_product" example_product False remote_ok
      "Some ''shop1''" example_world
      "\<lparr> tv_variant = Some \<lparr> ident = ''o1'', isVisible = Some False \<rparr>, tv_shopId = Some ''shop1'' \<rparr>"
      "\<lparr> ident = ''o1'', isVisible = Some False \<rparr>"]
  by (simp add: example_product_def example_world_def)

section \<open>The inventory target\<close>

lemma productVariantId_is_option_or_variant:
  "r_productVariantId (useVariantInventory_ids rp a cur) =
     js_or (r_optionId (useVariantInventory_ids rp a cur))
       (r_variantId (useVariantInventory_ids rp a cur))"
  by (simp add: useVariantInventory_ids_def Let_def)

lemma update_inventory_default_target:
  "ui_productVariantId x = None \<Longrightarrow>
     requests (fst (onUpdateVariantInventoryInfo env sel (Some x) w)) =
       requests w @
         [UpdateSimpleInventory (ui_inventoryInput x) (js_default (ui_productId x) (r_productId sel))
            (r_productVariantId sel) (r_shopId sel)]"
  by (simp add: onUpdateVariantInventoryInfo_def Let_def js_default_def try_await_def
      split: option.splits)

lemma recalculate_default_target:
  "rr_productVariantId y = None \<Longrightarrow>
     requests (fst (onRecalculateReservedSimpleInventory env sel (Some y) w)) =
       requests w @
         [RecalculateReservedSimpleInventory (js_default (rr_productId y) (r_productId sel))
            (r_productVariantId sel) (r_shopId sel)]"
  by (simp add: onRecalculateReservedSimpleInventory_def Let_def js_default_def try_await_def
      split: option.splits)

lemma update_inventory_given_target:
  "ui_productVariantId x = Some given \<Longrightarrow>
     requests (fst (onUpdateVariantInventoryInfo env sel (Some x) w)) =
       requests w @
         [UpdateSimpleInventory (ui_inventoryInput x) (js_default (ui_productId x) (r_productId sel))
            (Some given) (Some given)]"
  by (simp add: onUpdateVariantInventoryInfo_def Let_def js_default_def try_await_def
      split: option.splits)

lemma recalculate_given_target:
  "rr_productVariantId y = Some given \<Longrightarrow>
     requests (fst (onRecalculateReservedSimpleInventory env sel (Some y) w)) =
       requests w @
         [RecalculateReservedSimpleInventory (js_default (rr_productId y) (r_productId sel))
            (Some given) (Some given)]"
  by (simp add: onRecalculateReservedSimpleInventory_def Let_def js_default_def try_await_def
      split: option.splits)

text \<open>
  C9, as the spec states it, with option \<open>o1\<close> selected and a caller that names
  \<open>productVariantId = v1\<close>: the payload of update-inventory-info carries \<open>v1\<close>, not the
  resolved option id.
\<close>

theorem caller_names_another_inventory_target_counterexample:
  "truthy (r_optionId example_selection) \<and>
   r_optionId example_selection = Some ''o1'' \<and>
   requests (fst (onUpdateVariantInventoryInfo remote_ok example_selection
      (Some \<lparr> ui_inventoryInput = None, ui_productId = None, ui_productVariantId = Some ''v1'',
              ui_shopId = None \<rparr>) example_world)) =
     [UpdateSimpleInventory None (Some ''p1'') (Some ''v1'') (Some ''v1'')] \<and>
   map req_productVariantId
     (requests (fst (onUpdateVariantInventoryInfo remote_ok example_selection
        (Some \<lparr> ui_inventoryInput = None, ui_productId = None, ui_productVariantId = Some ''v1'',
                ui_shopId = None \<rparr>) example_world))) \<noteq>
     [r_optionId example_selection]"
  by (simp add: onUpdateVariantInventoryInfo_def Let_def js_default_def try_await_def
      remote_ok_def example_world_def example_selection_eq truthy_def)

text \<open>
  C9, amended. In \<open>useVariantInventory\<close>, \<open>productVariantId\<close> is the resolved option id
  when one is present and the resolved variant id otherwise. The inventory query uses
  it. The payload of each inventory mutation carries it when the caller names no
  \<open>productVariantId\<close>, and carries the caller's \<open>productVariantId\<close> when one is named.
\<close>

theorem inventory_target_is_option_else_variant:
  "r_productVariantId (useVariantInventory_ids rp a cur) =
     (if truthy (r_optionId (useVariantInventory_ids rp a cur))
      then r_optionId (useVariantInventory_ids rp a cur)
      else r_variantId (useVariantInventory_ids rp a cur)) \<and>
   qv_productVariantId (inventoryQueryVariables (useVariantInventory_ids rp a cur)) =
     r_productVariantId (useVariantInventory_ids rp a cur) \<and>
   (ui_productVariantId x = None \<longrightarrow>
      map req_productVariantId
        (requests (fst (onUpdateVariantInventoryInfo env (useVariantInventory_ids rp a cur)
           (Some x) w))) =
        map req_productVariantId (requests w) @
          [r_productVariantId (useVariantInventory_ids rp a cur)]) \<and>
   (ui_productVariantId x = Some given \<longrightarrow>
      map req_productVariantId
        (requests (fst (onUpdateVariantInventoryInfo env (useVariantInventory_ids rp a cur)
           (Some x) w))) =
        map req_productVariantId (requests w) @ [Some given]) \<and>
   (rr_productVariantId y = None \<longrightarrow>
      map req_productVariantId
        (requests (fst (onRecalculateReservedSimpleInventory env (useVariantInventory_ids rp a cur)
           (Some y) w))) =
        map req_productVariantId (requests w) @
          [r_productVariantId (useVariantInventory_ids rp a cur)]) \<and>
   (rr_productVariantId y = Some given' \<longrightarrow>
      map req_productVariantId
        (requests (fst (onRecalculateReservedSimpleInventory env (useVariantInventory_ids rp a cur)
           (Some y) w))) =
        map req_productVariantId (requests w) @ [Some given'])"
proof (intro conjI impI)
  show "r_productVariantId (useVariantInventory_ids rp a cur) =
     (if truthy (r_optionId (useVariantInventory_ids rp a cur))
      then r_optionId (useVariantInventory_ids rp a cur)
      else r_variantId (useVariantInventory_ids rp a cur))"
    unfolding productVariantId_is_option_or_variant js_or_def ..
  show "qv_productVariantId (inventoryQueryVariables (useVariantInventory_ids rp a cur)) =
     r_productVariantId (useVariantInventory_ids rp a cur)"
    by (simp only: inventoryQueryVariables_def inventory_query_variables.simps)
qed (simp_all add: update_inventory_default_target update_inventory_given_target
       recalculate_default_target recalculate_given_target)

theorem inventory_target_is_option_else_variant_witness:
  "truthy (r_optionId example_selection) \<and>
   r_productVariantId example_selection = Some ''o1'' \<and>
   qv_productVariantId (inventoryQueryVariables example_selection) = Some ''o1'' \<and>
   map req_productVariantId
     (requests (fst (onUpdateVariantInventoryInfo remote_ok example_selection
        (Some \<lparr> ui_inventoryInput = None, ui_productId = None, ui_productVariantId = None,
                ui_shopId = None \<rparr>) example_world))) = [Some ''o1''] \<and>
   map req_productVariantId
     (requests (fst (onRecalculateReservedSimpleInventory remote_ok example_selection
        (Some \<lparr> rr_productId = None, rr_productVariantId = Some ''v2'', rr_shopId = None \<rparr>)
        example_world))) = [Some ''v2'']"
  using inventory_target_is_option_else_variant [where rp = example_route and a = example_args
      and cur = "Some ''shop1''" and env = remote_ok and w = example_world
      and x = "\<lparr> ui_inventoryInput = None, ui_productId = None, ui_productVariantId = None,
         ui_shopId = None \<rparr>"
      and y = "\<lparr> rr_productId = None, rr_productVariantId = Some ''v2'', rr_shopId = None \<rparr>"
      and given = "''v1''" and given' = "''v2''"]
  unfolding example_selection_def [symmetric]
  by (simp add: example_selection_eq truthy_def example_world_def)

end
